theory Spec2Isabelle
  imports Complex_Main "HOL-Library.Word" "HOL-Library.Log_Nat"
begin

section \<open>Single-precision floating point\<close>

text \<open>
  The configuration of \<^verbatim>\<open>FastNoiseCL\<close> stores C++ \<^verbatim>\<open>float\<close> values and computes with
  \<^verbatim>\<open>+=\<close>, \<^verbatim>\<open>*=\<close> and \<^verbatim>\<open>/\<close> on them. A \<^verbatim>\<open>float\<close> is read as an IEEE 754 binary32 value:
  a signed finite magnitude (a rational of the form \<open>m * 2^e\<close> with \<open>m < 2^24\<close> and
  \<open>-149 \<le> e\<close>, below \<open>2^128\<close>), a signed infinity, or NaN. Every operation computes the exact
  rational result and rounds it to the nearest binary32 value, ties to even (the default
  rounding mode), and keeps no excess precision. All NaNs are one value: payloads are not
  distinguished.
\<close>

datatype f32 = Finite bool rat | Infinity bool | NaN

definition pow2 :: "int \<Rightarrow> rat" where
  "pow2 e = (if 0 \<le> e then 2 ^ nat e else 1 / 2 ^ nat (- e))"

text \<open>The exponent of the binade of a positive rational: \<open>2^e \<le> q < 2^(e+1)\<close>.\<close>

definition floor_log2 :: "rat \<Rightarrow> int" where
  "floor_log2 q =
     (let e = bitlen (fst (quotient_of q)) - bitlen (snd (quotient_of q))
      in if pow2 e \<le> q then e else e - 1)"

definition round_half_even :: "rat \<Rightarrow> int" where
  "round_half_even x =
     (let f = \<lfloor>x\<rfloor>; r = x - of_int f
      in if r < 1 / 2 then f
         else if 1 / 2 < r then f + 1
         else if even f then f else f + 1)"

text \<open>
  Rounding of a magnitude \<open>q \<ge> 0\<close> with sign \<open>s\<close> (\<open>True\<close> is negative). The unit in the last
  place is \<open>2^(e - 23)\<close> for the binade \<open>e\<close> of \<open>q\<close>, and \<open>2^(-149)\<close> in the subnormal range;
  a result of \<open>2^128\<close> or more overflows to infinity.
\<close>

definition rnd :: "bool \<Rightarrow> rat \<Rightarrow> f32" where
  "rnd s q =
     (if q = 0 then Finite s 0
      else
        let e = max (- 126) (floor_log2 q);
            u = pow2 (e - 23);
            v = of_int (round_half_even (q / u)) * u
        in if 2 ^ 128 \<le> v then Infinity s else Finite s v)"

text \<open>The value of a decimal literal with suffix \<^verbatim>\<open>f\<close>, such as \<^verbatim>\<open>0.45f\<close>.\<close>

definition f32_lit :: "rat \<Rightarrow> f32" where
  "f32_lit r = rnd (r < 0) \<bar>r\<bar>"

definition sval :: "bool \<Rightarrow> rat \<Rightarrow> rat" where
  "sval s q = (if s then - q else q)"

fun fadd :: "f32 \<Rightarrow> f32 \<Rightarrow> f32" where
  "fadd NaN _ = NaN"
| "fadd _ NaN = NaN"
| "fadd (Infinity s) (Infinity t) = (if s = t then Infinity s else NaN)"
| "fadd (Infinity s) (Finite _ _) = Infinity s"
| "fadd (Finite _ _) (Infinity t) = Infinity t"
| "fadd (Finite s a) (Finite t b) =
     (let v = sval s a + sval t b
      in if v = 0 then Finite (s \<and> t) 0 else rnd (v < 0) \<bar>v\<bar>)"

fun fmul :: "f32 \<Rightarrow> f32 \<Rightarrow> f32" where
  "fmul NaN _ = NaN"
| "fmul _ NaN = NaN"
| "fmul (Infinity s) (Infinity t) = Infinity (s \<noteq> t)"
| "fmul (Infinity s) (Finite t b) = (if b = 0 then NaN else Infinity (s \<noteq> t))"
| "fmul (Finite s a) (Infinity t) = (if a = 0 then NaN else Infinity (s \<noteq> t))"
| "fmul (Finite s a) (Finite t b) = rnd (s \<noteq> t) (a * b)"

fun fdiv :: "f32 \<Rightarrow> f32 \<Rightarrow> f32" where
  "fdiv NaN _ = NaN"
| "fdiv _ NaN = NaN"
| "fdiv (Infinity s) (Infinity t) = NaN"
| "fdiv (Infinity s) (Finite t b) = Infinity (s \<noteq> t)"
| "fdiv (Finite s a) (Infinity t) = Finite (s \<noteq> t) 0"
| "fdiv (Finite s a) (Finite t b) =
     (if b = 0 then (if a = 0 then NaN else Infinity (s \<noteq> t))
      else rnd (s \<noteq> t) (a / b))"

text \<open>A value is a binary32 value when rounding leaves it unchanged.\<close>

fun is_f32 :: "f32 \<Rightarrow> bool" where
  "is_f32 (Finite s q) = (0 \<le> q \<and> rnd s q = Finite s q)"
| "is_f32 (Infinity s) = True"
| "is_f32 NaN = True"

section \<open>The configuration\<close>

text \<open>
  The enumerations of the class, in the order of their declarations. \<^verbatim>\<open>PerturbType::None\<close> is
  \<open>None_Perturb\<close> here.
\<close>

datatype NoiseType =
  Value | ValueFractal | Perlin | PerlinFractal | Simplex | SimplexFractal | Cellular | WhiteNoise

datatype Interp = Linear | Hermite | Quintic

datatype FractalType = FBM | Billow | RigidMulti

datatype CellularDistanceFunction = Euclidean | Manhattan | Natural

datatype CellularReturnType =
  CellValue | NoiseLookup | Distance | Distance2
  | Distance2Add | Distance2Sub | Distance2Mul | Distance2Div

datatype PerturbType = None_Perturb | Single | Fractal

text \<open>
  An \<^verbatim>\<open>int\<close> is a 32-bit word in two's complement (\<open>sint\<close> reads it); an
  \<^verbatim>\<open>unsigned int\<close> is a 32-bit word read by \<open>unat\<close>. A \<^verbatim>\<open>FastNoiseCL*\<close> is the address of an
  object of the free store, or \<open>None\<close> for \<^verbatim>\<open>nullptr\<close>.
\<close>

type_synonym int32 = "32 word"
type_synonym uint32 = "32 word"
type_synonym addr = nat

text \<open>
  The protected data members. The member \<^verbatim>\<open>kernel_adapter\<close> belongs to the compute backend
  and is no part of the configuration.
\<close>

record FastNoiseCL =
  m_seed :: int32
  m_frequency :: f32
  m_interp :: Interp
  m_noiseType :: NoiseType
  m_octaves :: int32
  m_lacunarity :: f32
  m_gain :: f32
  m_fractalType :: FractalType
  m_fractalBounding :: f32
  m_cellularDistanceFunction :: CellularDistanceFunction
  m_cellularReturnType :: CellularReturnType
  m_cellularNoiseLookup :: "addr option"
  m_perturbAmp :: f32
  m_perturb :: PerturbType

text \<open>
  The loop of \<^verbatim>\<open>CalculateFractalBounding\<close>:
  \<^verbatim>\<open>for (unsigned int i = 1; i < m_octaves; i++) { ampFractal += amp; amp *= m_gain; }\<close>
  The counter is unsigned, so the comparison converts \<^verbatim>\<open>m_octaves\<close> to \<^verbatim>\<open>unsigned int\<close>:
  both sides are compared as unsigned 32-bit words.
\<close>

function fractal_loop :: "f32 \<Rightarrow> int32 \<Rightarrow> uint32 \<Rightarrow> f32 \<Rightarrow> f32 \<Rightarrow> f32" where
  "fractal_loop gain octaves i amp ampFractal =
     (if i < octaves
      then fractal_loop gain octaves (i + 1) (fmul amp gain) (fadd ampFractal amp)
      else ampFractal)"
  by pat_completeness auto
termination
proof (relation "measure (\<lambda>(gain, octaves, i, amp, ampFractal). unat octaves - unat i)")
  show "wf (measure (\<lambda>(gain, octaves, i, amp, ampFractal). unat octaves - unat i))"
    by simp
next
  fix gain :: f32 and octaves i :: "32 word" and amp ampFractal :: f32
  assume "i < octaves"
  then have lt: "unat i < unat octaves"
    by (simp add: word_less_nat_alt)
  have "unat octaves < 2 ^ 32"
    using unsigned_less [of octaves] by simp
  with lt have "unat (i + 1) = unat i + 1"
    by (simp add: unat_word_ariths)
  with lt show "((gain, octaves, i + 1, fmul amp gain, fadd ampFractal amp),
      (gain, octaves, i, amp, ampFractal))
    \<in> measure (\<lambda>(gain, octaves, i, amp, ampFractal). unat octaves - unat i)"
    by simp
qed

definition CalculateFractalBounding :: "FastNoiseCL \<Rightarrow> FastNoiseCL" where
  "CalculateFractalBounding c =
     c\<lparr>m_fractalBounding :=
         fdiv (f32_lit 1) (fractal_loop (m_gain c) (m_octaves c) 1 (m_gain c) (f32_lit 1))\<rparr>"

text \<open>
  Modelled from the spec: \<^verbatim>\<open>SetSeed\<close> is declared in the header and defined in
  \<^verbatim>\<open>FastNoiseCL.cpp\<close>, which is not among the sources. By the spec a setter is a pure state
  mutation of its own field, and \<^verbatim>\<open>GetSeed\<close> returns \<^verbatim>\<open>m_seed\<close>.
\<close>

definition SetSeed :: "int32 \<Rightarrow> FastNoiseCL \<Rightarrow> FastNoiseCL" where
  "SetSeed seed c = c\<lparr>m_seed := seed\<rparr>"

definition GetSeed :: "FastNoiseCL \<Rightarrow> int32" where
  "GetSeed c = m_seed c"

definition SetFrequency :: "f32 \<Rightarrow> FastNoiseCL \<Rightarrow> FastNoiseCL" where
  "SetFrequency frequency c = c\<lparr>m_frequency := frequency\<rparr>"

definition SetInterp :: "Interp \<Rightarrow> FastNoiseCL \<Rightarrow> FastNoiseCL" where
  "SetInterp interp c = c\<lparr>m_interp := interp\<rparr>"

definition SetNoiseType :: "NoiseType \<Rightarrow> FastNoiseCL \<Rightarrow> FastNoiseCL" where
  "SetNoiseType noiseType c = c\<lparr>m_noiseType := noiseType\<rparr>"

definition SetFractalOctaves :: "int32 \<Rightarrow> FastNoiseCL \<Rightarrow> FastNoiseCL" where
  "SetFractalOctaves octaves c = CalculateFractalBounding (c\<lparr>m_octaves := octaves\<rparr>)"

definition SetFractalLacunarity :: "f32 \<Rightarrow> FastNoiseCL \<Rightarrow> FastNoiseCL" where
  "SetFractalLacunarity lacunarity c = c\<lparr>m_lacunarity := lacunarity\<rparr>"

definition SetFractalGain :: "f32 \<Rightarrow> FastNoiseCL \<Rightarrow> FastNoiseCL" where
  "SetFractalGain gain c = CalculateFractalBounding (c\<lparr>m_gain := gain\<rparr>)"

definition SetFractalType :: "FractalType \<Rightarrow> FastNoiseCL \<Rightarrow> FastNoiseCL" where
  "SetFractalType fractalType c = c\<lparr>m_fractalType := fractalType\<rparr>"

definition SetCellularDistanceFunction ::
    "CellularDistanceFunction \<Rightarrow> FastNoiseCL \<Rightarrow> FastNoiseCL" where
  "SetCellularDistanceFunction cellularDistanceFunction c =
     c\<lparr>m_cellularDistanceFunction := cellularDistanceFunction\<rparr>"

definition SetCellularReturnType :: "CellularReturnType \<Rightarrow> FastNoiseCL \<Rightarrow> FastNoiseCL" where
  "SetCellularReturnType cellularReturnType c = c\<lparr>m_cellularReturnType := cellularReturnType\<rparr>"

definition SetCellularNoiseLookup :: "addr option \<Rightarrow> FastNoiseCL \<Rightarrow> FastNoiseCL" where
  "SetCellularNoiseLookup noise c = c\<lparr>m_cellularNoiseLookup := noise\<rparr>"

definition SetPerturbAmp :: "f32 \<Rightarrow> FastNoiseCL \<Rightarrow> FastNoiseCL" where
  "SetPerturbAmp perturbAmp c = c\<lparr>m_perturbAmp := fdiv perturbAmp (f32_lit (45 / 100))\<rparr>"

definition SetPeturbType :: "PerturbType \<Rightarrow> FastNoiseCL \<Rightarrow> FastNoiseCL" where
  "SetPeturbType perturb c = c\<lparr>m_perturb := perturb\<rparr>"

text \<open>
  The default member initialisers. \<^verbatim>\<open>m_fractalBounding\<close> has none: its value before the
  constructor body runs is indeterminate, and is the parameter \<open>fb\<close>.
\<close>

definition member_init :: "f32 \<Rightarrow> FastNoiseCL" where
  "member_init fb =
     \<lparr>m_seed = 1337,
      m_frequency = f32_lit (1 / 100),
      m_interp = Quintic,
      m_noiseType = Simplex,
      m_octaves = 3,
      m_lacunarity = f32_lit 2,
      m_gain = f32_lit (1 / 2),
      m_fractalType = FBM,
      m_fractalBounding = fb,
      m_cellularDistanceFunction = Euclidean,
      m_cellularReturnType = CellValue,
      m_cellularNoiseLookup = None,
      m_perturbAmp = fdiv (f32_lit 1) (f32_lit (45 / 100)),
      m_perturb = None_Perturb\<rparr>"

text \<open>
  The constructor \<^verbatim>\<open>FastNoiseCL(int seed = 1337)\<close>: \<^verbatim>\<open>SetSeed(seed); CalculateFractalBounding();\<close>
  after the member initialisers. The constructor with a \<^verbatim>\<open>Device&\<close> runs the same two calls
  and then prepares the backend. \<open>setSeed\<close> is the implementation of \<^verbatim>\<open>SetSeed\<close>.
\<close>

definition FastNoiseCL_ctor ::
    "(int32 \<Rightarrow> FastNoiseCL \<Rightarrow> FastNoiseCL) \<Rightarrow> f32 \<Rightarrow> int32 \<Rightarrow> FastNoiseCL" where
  "FastNoiseCL_ctor setSeed fb seed = CalculateFractalBounding (setSeed seed (member_init fb))"

definition default_seed :: int32 where
  "default_seed = 1337"

section \<open>Calls of the setters\<close>

text \<open>
  A call of one of the setters whose body is in the header, with its argument, and the state
  after a sequence of such calls.
\<close>

datatype setter_call =
  Call_SetFrequency f32
  | Call_SetInterp Interp
  | Call_SetNoiseType NoiseType
  | Call_SetFractalOctaves int32
  | Call_SetFractalLacunarity f32
  | Call_SetFractalGain f32
  | Call_SetFractalType FractalType
  | Call_SetCellularDistanceFunction CellularDistanceFunction
  | Call_SetCellularReturnType CellularReturnType
  | Call_SetCellularNoiseLookup "addr option"
  | Call_SetPerturbAmp f32
  | Call_SetPeturbType PerturbType

fun call :: "setter_call \<Rightarrow> FastNoiseCL \<Rightarrow> FastNoiseCL" where
  "call (Call_SetFrequency x) = SetFrequency x"
| "call (Call_SetInterp x) = SetInterp x"
| "call (Call_SetNoiseType x) = SetNoiseType x"
| "call (Call_SetFractalOctaves x) = SetFractalOctaves x"
| "call (Call_SetFractalLacunarity x) = SetFractalLacunarity x"
| "call (Call_SetFractalGain x) = SetFractalGain x"
| "call (Call_SetFractalType x) = SetFractalType x"
| "call (Call_SetCellularDistanceFunction x) = SetCellularDistanceFunction x"
| "call (Call_SetCellularReturnType x) = SetCellularReturnType x"
| "call (Call_SetCellularNoiseLookup x) = SetCellularNoiseLookup x"
| "call (Call_SetPerturbAmp x) = SetPerturbAmp x"
| "call (Call_SetPeturbType x) = SetPeturbType x"

text \<open>The two setters whose body calls \<^verbatim>\<open>CalculateFractalBounding\<close>.\<close>

fun recomputes :: "setter_call \<Rightarrow> bool" where
  "recomputes (Call_SetFractalOctaves x) = True"
| "recomputes (Call_SetFractalGain x) = True"
| "recomputes _ = False"

definition calls :: "setter_call list \<Rightarrow> FastNoiseCL \<Rightarrow> FastNoiseCL" where
  "calls xs c = foldl (\<lambda>c x. call x c) c xs"

text \<open>
  The stored bounding factor is the one \<^verbatim>\<open>CalculateFractalBounding\<close> computes from the
  current gain and octave count.
\<close>

definition bounding_consistent :: "FastNoiseCL \<Rightarrow> bool" where
  "bounding_consistent c \<longleftrightarrow>
     m_fractalBounding c = m_fractalBounding (CalculateFractalBounding c)"

section \<open>The geometric sum of the gains\<close>

text \<open>
  The powers \<open>gain^k\<close> and the sum \<open>1 + gain + gain^2 + ... + gain^k\<close> in binary32 arithmetic:
  each power is the previous one times the gain, and the terms are added from the left.
\<close>

fun gain_pow :: "f32 \<Rightarrow> nat \<Rightarrow> f32" where
  "gain_pow gain 0 = f32_lit 1"
| "gain_pow gain (Suc 0) = gain"
| "gain_pow gain (Suc (Suc k)) = fmul (gain_pow gain (Suc k)) gain"

fun geometric_sum :: "f32 \<Rightarrow> nat \<Rightarrow> f32" where
  "geometric_sum gain 0 = gain_pow gain 0"
| "geometric_sum gain (Suc k) = fadd (geometric_sum gain k) (gain_pow gain (Suc k))"

section \<open>Destruction\<close>

text \<open>
  The free store maps the address of every live \<^verbatim>\<open>FastNoiseCL\<close> object created by \<^verbatim>\<open>new\<close> to
  its members. The destructor is \<^verbatim>\<open>~FastNoiseCL() { delete m_cellularNoiseLookup; }\<close>.

  \<^verbatim>\<open>delete p\<close> does nothing for a null pointer. Otherwise it runs the destructor of the
  object at \<open>p\<close>, which deletes that object's own lookup pointer first, and then releases \<open>p\<close>.
  Deleting an address that holds no live object is undefined behaviour. A chain of lookup
  pointers that runs into itself makes the destructors call each other without end: the
  recursion is bounded by \<open>fuel\<close>, one unit for each nested destructor.
\<close>

type_synonym heap = "addr \<rightharpoonup> FastNoiseCL"

datatype fault = UndefinedBehaviour | OutOfFuel

fun delete_FastNoiseCL :: "nat \<Rightarrow> heap \<Rightarrow> addr option \<Rightarrow> fault + heap" where
  "delete_FastNoiseCL fuel h None = Inr h"
| "delete_FastNoiseCL 0 h (Some a) = Inl OutOfFuel"
| "delete_FastNoiseCL (Suc fuel) h (Some a) =
     (case h a of
        None \<Rightarrow> Inl UndefinedBehaviour
      | Some obj \<Rightarrow>
          (case delete_FastNoiseCL fuel h (m_cellularNoiseLookup obj) of
             Inl e \<Rightarrow> Inl e
           | Inr h' \<Rightarrow>
               (if a \<in> dom h' then Inr (h'(a := None)) else Inl UndefinedBehaviour)))"

text \<open>The destructor of a configuration \<open>c\<close> that is not itself on the free store.\<close>

definition FastNoiseCL_dtor :: "nat \<Rightarrow> heap \<Rightarrow> FastNoiseCL \<Rightarrow> fault + heap" where
  "FastNoiseCL_dtor fuel h c = delete_FastNoiseCL fuel h (m_cellularNoiseLookup c)"

section \<open>Evaluation\<close>

text \<open>
  The evaluation methods are declared in the header; their bodies and the kernels they run
  are in files that are not among the sources. What follows is written from the spec.
\<close>

datatype error = ConfigurationError | BackendError

text \<open>
  Modelled from the spec: \<^verbatim>\<open>GetCellular\<close>, whose body is missing. Selecting \<^verbatim>\<open>NoiseLookup\<close>
  with no referenced secondary configuration is a configuration error: it is detected at
  dispatch time and reported, evaluation does not proceed, and the configuration is left
  untouched. Otherwise the configuration and the grid go to the compute backend, which
  returns the array or fails; evaluation never changes the configuration. \<open>backend\<close> is the
  backend running the cellular kernel, \<open>grid\<close> the ranges of the call.
\<close>

definition GetCellular ::
    "(FastNoiseCL \<Rightarrow> 'g \<Rightarrow> error + f32 list) \<Rightarrow> 'g \<Rightarrow> FastNoiseCL
      \<Rightarrow> (error + f32 list) \<times> FastNoiseCL" where
  "GetCellular backend grid c =
     (if m_cellularReturnType c = NoiseLookup \<and> m_cellularNoiseLookup c = None
      then (Inl ConfigurationError, c)
      else (backend c grid, c))"

text \<open>
  Modelled from the spec: \<^verbatim>\<open>GetNoise\<close>, whose body is missing. It dispatches on the current
  noise family to the matching typed operation; \<open>backend t\<close> is the backend running the
  kernel of family \<open>t\<close>.
\<close>

definition GetNoise ::
    "(NoiseType \<Rightarrow> FastNoiseCL \<Rightarrow> 'g \<Rightarrow> error + f32 list) \<Rightarrow> 'g \<Rightarrow> FastNoiseCL
      \<Rightarrow> (error + f32 list) \<times> FastNoiseCL" where
  "GetNoise backend grid c =
     (if m_noiseType c = Cellular then GetCellular (backend Cellular) grid c
      else (backend (m_noiseType c) c grid, c))"

text \<open>
  Modelled from the spec: the FBM combinator, whose kernel is missing. Octave \<open>i\<close> of \<open>O\<close>
  contributes \<open>amp_i * primitive(seed + i, coord * freq_i)\<close> with \<open>freq_0\<close> the frequency,
  \<open>freq_(i+1) = freq_i * L\<close>, \<open>amp_0 = 1\<close> and \<open>amp_(i+1) = amp_i * G\<close>; the contributions are
  accumulated and the sum is multiplied by the fractal bounding factor. \<open>primitive\<close> is the
  base primitive, a function of the interpolation mode, the seed and the scaled coordinate.
\<close>

fun fbm_terms ::
    "(int32 \<Rightarrow> f32 list \<Rightarrow> f32) \<Rightarrow> f32 \<Rightarrow> f32 \<Rightarrow> nat \<Rightarrow> int32 \<Rightarrow> f32 \<Rightarrow> f32 \<Rightarrow> f32 list
      \<Rightarrow> f32 list" where
  "fbm_terms primitive L G 0 seed freq amp coord = []"
| "fbm_terms primitive L G (Suc n) seed freq amp coord =
     fmul amp (primitive seed (map (\<lambda>x. fmul x freq) coord))
       # fbm_terms primitive L G n (seed + 1) (fmul freq L) (fmul amp G) coord"

fun accumulate :: "f32 list \<Rightarrow> f32" where
  "accumulate [] = Finite False 0"
| "accumulate (t # ts) = foldl fadd t ts"

definition fractal_FBM ::
    "(Interp \<Rightarrow> int32 \<Rightarrow> f32 list \<Rightarrow> f32) \<Rightarrow> FastNoiseCL \<Rightarrow> f32 list \<Rightarrow> f32" where
  "fractal_FBM primitive c coord =
     fmul
       (accumulate
          (fbm_terms (primitive (m_interp c)) (m_lacunarity c) (m_gain c)
             (nat (sint (m_octaves c))) (m_seed c) (m_frequency c) (f32_lit 1) coord))
       (m_fractalBounding c)"

text \<open>
  Modelled from the spec: the cellular resolver, whose kernel is missing. One computation
  finds the nearest and the second-nearest cell of a point under the configured metric; the
  return type selects the output at the final combine step: the hash of the nearest cell, the
  lookup noise at its coordinate, the raw distance to the nearest or to the second-nearest
  cell, or the two distances combined by \<open>+\<close>, \<open>-\<close>, \<open>*\<close>, \<open>/\<close>. \<open>nearest\<close> is that computation
  and \<open>lookup\<close> the evaluation of the secondary configuration.
\<close>

record cell =
  cellValue :: f32
  cellCoord :: "f32 list"
  distance :: f32
  distance2 :: f32

fun fneg :: "f32 \<Rightarrow> f32" where
  "fneg (Finite s q) = Finite (\<not> s) q"
| "fneg (Infinity s) = Infinity (\<not> s)"
| "fneg NaN = NaN"

definition fsub :: "f32 \<Rightarrow> f32 \<Rightarrow> f32" where
  "fsub a b = fadd a (fneg b)"

fun cellular_return :: "CellularReturnType \<Rightarrow> (f32 list \<Rightarrow> f32) \<Rightarrow> cell \<Rightarrow> f32" where
  "cellular_return CellValue lookup r = cellValue r"
| "cellular_return NoiseLookup lookup r = lookup (cellCoord r)"
| "cellular_return Distance lookup r = distance r"
| "cellular_return Distance2 lookup r = distance2 r"
| "cellular_return Distance2Add lookup r = fadd (distance r) (distance2 r)"
| "cellular_return Distance2Sub lookup r = fsub (distance r) (distance2 r)"
| "cellular_return Distance2Mul lookup r = fmul (distance r) (distance2 r)"
| "cellular_return Distance2Div lookup r = fdiv (distance r) (distance2 r)"

definition cellular_point ::
    "(CellularDistanceFunction \<Rightarrow> int32 \<Rightarrow> f32 list \<Rightarrow> cell) \<Rightarrow> (f32 list \<Rightarrow> f32)
      \<Rightarrow> FastNoiseCL \<Rightarrow> f32 list \<Rightarrow> f32" where
  "cellular_point nearest lookup c coord =
     cellular_return (m_cellularReturnType c) lookup
       (nearest (m_cellularDistanceFunction c) (m_seed c)
          (map (\<lambda>x. fmul x (m_frequency c)) coord))"

section \<open>Defaults\<close>

lemma member_init_simps:
  "m_seed (member_init fb) = 1337"
  "m_frequency (member_init fb) = f32_lit (1 / 100)"
  "m_interp (member_init fb) = Quintic"
  "m_noiseType (member_init fb) = Simplex"
  "m_octaves (member_init fb) = 3"
  "m_lacunarity (member_init fb) = f32_lit 2"
  "m_gain (member_init fb) = f32_lit (1 / 2)"
  "m_fractalType (member_init fb) = FBM"
  "m_cellularDistanceFunction (member_init fb) = Euclidean"
  "m_cellularReturnType (member_init fb) = CellValue"
  "m_cellularNoiseLookup (member_init fb) = None"
  "m_perturb (member_init fb) = None_Perturb"
  by (simp_all add: member_init_def)

text \<open>
  C8. A newly constructed configuration (constructor called with its default argument) has seed
  1337, frequency 0.01, Quintic interpolation, the Simplex family, 3 octaves, lacunarity 2.0,
  gain 0.5, FBM, the Euclidean distance function, the CellValue return type and perturb type
  None. These are the member initialisers: the constructor body changes the fractal bounding
  factor only. The body of \<^verbatim>\<open>SetSeed\<close> is the one modelled from the spec.
\<close>

theorem constructed_defaults:
  "m_seed (FastNoiseCL_ctor SetSeed fb default_seed) = 1337
   \<and> m_frequency (FastNoiseCL_ctor SetSeed fb default_seed) = f32_lit (1 / 100)
   \<and> m_interp (FastNoiseCL_ctor SetSeed fb default_seed) = Quintic
   \<and> m_noiseType (FastNoiseCL_ctor SetSeed fb default_seed) = Simplex
   \<and> m_octaves (FastNoiseCL_ctor SetSeed fb default_seed) = 3
   \<and> m_lacunarity (FastNoiseCL_ctor SetSeed fb default_seed) = f32_lit 2
   \<and> m_gain (FastNoiseCL_ctor SetSeed fb default_seed) = f32_lit (1 / 2)
   \<and> m_fractalType (FastNoiseCL_ctor SetSeed fb default_seed) = FBM
   \<and> m_cellularDistanceFunction (FastNoiseCL_ctor SetSeed fb default_seed) = Euclidean
   \<and> m_cellularReturnType (FastNoiseCL_ctor SetSeed fb default_seed) = CellValue
   \<and> m_perturb (FastNoiseCL_ctor SetSeed fb default_seed) = None_Perturb
   \<and> (FastNoiseCL_ctor SetSeed fb default_seed)\<lparr>m_fractalBounding := fb\<rparr> = member_init fb"
  by (simp add: FastNoiseCL_ctor_def CalculateFractalBounding_def SetSeed_def default_seed_def
      member_init_def)

section \<open>The setter bodies\<close>

lemmas setter_defs =
  SetFrequency_def SetInterp_def SetNoiseType_def SetFractalOctaves_def
  SetFractalLacunarity_def SetFractalGain_def SetFractalType_def
  SetCellularDistanceFunction_def SetCellularReturnType_def SetCellularNoiseLookup_def
  SetPerturbAmp_def SetPeturbType_def

section \<open>The warp amplitude\<close>

lemma f32_lit_one: "f32_lit 1 = Finite False 1"
  by code_simp

lemma f32_one_div_one: "fdiv (f32_lit 1) (f32_lit 1) = f32_lit 1"
  by code_simp

lemma perturb_self: "fdiv (f32_lit (45 / 100)) (f32_lit (45 / 100)) = f32_lit 1"
  by code_simp

lemma double_literal_045:
  "f32_lit (8106479329266893 / 18014398509481984) = f32_lit (45 / 100)"
  by code_simp

text \<open>
  C2. For every binary32 value \<open>a\<close> (infinities and NaN included), \<^verbatim>\<open>SetPerturbAmp(a)\<close> stores
  \<open>a / 0.45f\<close>. For the argument \<^verbatim>\<open>0.45f\<close> the stored value is exactly \<open>1.0\<close>; the \<^verbatim>\<open>double\<close>
  literal \<^verbatim>\<open>0.45\<close>, which is \<open>8106479329266893 / 2^54\<close>, converts to the same \<^verbatim>\<open>float\<close>.
\<close>

theorem perturb_amp_scaling:
  "m_perturbAmp (SetPerturbAmp a c) = fdiv a (f32_lit (45 / 100))
   \<and> m_perturbAmp (SetPerturbAmp (f32_lit (45 / 100)) c) = Finite False 1
   \<and> m_perturbAmp (SetPerturbAmp (f32_lit (8106479329266893 / 18014398509481984)) c)
       = Finite False 1"
  using perturb_self double_literal_045 by (simp add: SetPerturbAmp_def f32_lit_one)

section \<open>The fractal bounding factor\<close>

lemma CalculateFractalBounding_consistent:
  "bounding_consistent (CalculateFractalBounding c)"
  by (simp add: bounding_consistent_def CalculateFractalBounding_def)

lemma call_bounding:
  "m_fractalBounding (call x c) =
     (if recomputes x then m_fractalBounding (CalculateFractalBounding (call x c))
      else m_fractalBounding c)"
  by (cases x) (simp_all add: setter_defs CalculateFractalBounding_def)

lemma call_consistent:
  "bounding_consistent c \<Longrightarrow> bounding_consistent (call x c)"
  by (cases x) (simp_all add: setter_defs bounding_consistent_def CalculateFractalBounding_def)

lemma calls_consistent:
  "bounding_consistent c \<Longrightarrow> bounding_consistent (calls xs c)"
  unfolding calls_def
  by (induction xs arbitrary: c) (simp_all add: call_consistent)

text \<open>
  C1. The stored bounding factor is the value \<^verbatim>\<open>CalculateFractalBounding\<close> computes from the
  current gain and octave count: after construction (whatever \<^verbatim>\<open>SetSeed\<close> does and whatever
  the member held before), after any sequence of setter calls on a constructed configuration,
  and right after \<^verbatim>\<open>SetFractalOctaves\<close> or \<^verbatim>\<open>SetFractalGain\<close> on any configuration at all. A
  setter call either is one of these two, and the factor is the recomputed one when the call
  returns, or leaves the factor as it was. The computed factor depends on the gain and the
  octave count only: any configuration \<open>c'\<close> given the same two values gets the same factor.
  The setter calls are those of the setters defined in the header; \<^verbatim>\<open>SetSeed\<close> is declared
  only.
\<close>

theorem fractal_bounding_invariant:
  "bounding_consistent (FastNoiseCL_ctor setSeed fb seed)
   \<and> bounding_consistent (calls xs (FastNoiseCL_ctor setSeed fb seed))
   \<and> bounding_consistent (SetFractalOctaves octaves c)
   \<and> bounding_consistent (SetFractalGain gain c)
   \<and> m_fractalBounding (call x c) =
       (if recomputes x then m_fractalBounding (CalculateFractalBounding (call x c))
        else m_fractalBounding c)
   \<and> m_fractalBounding (CalculateFractalBounding c) =
       m_fractalBounding
         (CalculateFractalBounding (c'\<lparr>m_gain := m_gain c, m_octaves := m_octaves c\<rparr>))"
proof -
  have "m_fractalBounding (CalculateFractalBounding c) =
       m_fractalBounding
         (CalculateFractalBounding (c'\<lparr>m_gain := m_gain c, m_octaves := m_octaves c\<rparr>))"
    by (simp add: CalculateFractalBounding_def)
  then show ?thesis
    by (simp add: FastNoiseCL_ctor_def SetFractalOctaves_def SetFractalGain_def
        CalculateFractalBounding_consistent calls_consistent call_bounding)
qed

lemma unat_succ: "(i :: 32 word) < n \<Longrightarrow> unat (i + 1) = Suc (unat i)"
proof -
  assume "i < n"
  then have lt: "unat i < unat n"
    by (simp add: word_less_nat_alt)
  have "unat n < 2 ^ 32"
    using unsigned_less [of n] by simp
  with lt show ?thesis
    by (simp add: unat_word_ariths)
qed

lemma unat_of_nonneg: "0 \<le> sint (w :: 32 word) \<Longrightarrow> unat w = nat (sint w)"
proof -
  assume "0 \<le> sint w"
  moreover have "sint w < 2 ^ 31"
    using sint_lt [of w] by simp
  ultimately have "take_bit 32 (sint w) = sint w"
    by (simp add: take_bit_int_eq_self)
  then have "uint w = sint w"
    using uint_sint [of w] by simp
  then show ?thesis
    by (simp add: unat_eq_nat_uint)
qed

text \<open>
  The loop invariant: when the counter is \<open>i\<close>, \<^verbatim>\<open>amp\<close> is \<open>gain^i\<close> and \<^verbatim>\<open>ampFractal\<close> is the sum
  up to \<open>gain^(i - 1)\<close>.
\<close>

lemma fractal_loop_geometric:
  "1 \<le> unat i \<Longrightarrow> unat i \<le> unat octaves
   \<Longrightarrow> amp = gain_pow gain (unat i) \<Longrightarrow> ampFractal = geometric_sum gain (unat i - 1)
   \<Longrightarrow> fractal_loop gain octaves i amp ampFractal = geometric_sum gain (unat octaves - 1)"
proof (induction gain octaves i amp ampFractal rule: fractal_loop.induct)
  case (1 gain octaves i amp ampFractal)
  show ?case
  proof (cases "i < octaves")
    case True
    then have s: "unat (i + 1) = Suc (unat i)"
      by (rule unat_succ)
    from True have lt: "unat i < unat octaves"
      by (simp add: word_less_nat_alt)
    obtain k where k: "unat i = Suc k"
      using "1.prems"(1) by (cases "unat i") auto
    have "fractal_loop gain octaves (i + 1) (fmul amp gain) (fadd ampFractal amp)
        = geometric_sum gain (unat octaves - 1)"
    proof (rule "1.IH" [OF True])
      show "1 \<le> unat (i + 1)" using s by simp
      show "unat (i + 1) \<le> unat octaves" using s lt by simp
      show "fmul amp gain = gain_pow gain (unat (i + 1))"
        using s k "1.prems"(3) by simp
      show "fadd ampFractal amp = geometric_sum gain (unat (i + 1) - 1)"
        using s k "1.prems"(3,4) by simp
    qed
    with True show ?thesis
      by (subst fractal_loop.simps) simp
  next
    case False
    then have "unat i = unat octaves"
      using "1.prems"(2) by (simp add: word_less_nat_alt)
    with False "1.prems"(4) show ?thesis
      by (subst fractal_loop.simps) simp
  qed
qed

lemma fractal_loop_none:
  "octaves \<le> 1 \<Longrightarrow> fractal_loop gain octaves 1 amp ampFractal = ampFractal"
  by (subst fractal_loop.simps) (simp add: not_less [symmetric])

text \<open>
  For every octave count, read as the loop reads it (unsigned): a negative count \<open>n\<close> runs
  the loop \<open>2^32 + n - 1\<close> times.
\<close>

lemma bounding_unsigned:
  "m_fractalBounding (CalculateFractalBounding c) =
     fdiv (f32_lit 1) (geometric_sum (m_gain c) (unat (m_octaves c) - 1))"
proof -
  have "fractal_loop (m_gain c) (m_octaves c) 1 (m_gain c) (f32_lit 1)
      = geometric_sum (m_gain c) (unat (m_octaves c) - 1)"
  proof (cases "m_octaves c \<le> 1")
    case True
    then have "unat (m_octaves c) \<le> unat (1 :: 32 word)"
      by (simp only: word_le_nat_alt)
    then have "unat (m_octaves c) - 1 = 0"
      by simp
    then have "geometric_sum (m_gain c) (unat (m_octaves c) - 1) = f32_lit 1"
      by simp
    moreover from True
    have "fractal_loop (m_gain c) (m_octaves c) 1 (m_gain c) (f32_lit 1) = f32_lit 1"
      by (rule fractal_loop_none)
    ultimately show ?thesis
      by (simp only:)
  next
    case False
    then have "unat (1 :: 32 word) < unat (m_octaves c)"
      by (simp only: word_le_nat_alt not_le)
    then have lt: "1 < unat (m_octaves c)"
      by simp
    show ?thesis
    proof (rule fractal_loop_geometric)
      show "1 \<le> unat (1 :: 32 word)" by simp
      show "unat (1 :: 32 word) \<le> unat (m_octaves c)" using lt by simp
      show "m_gain c = gain_pow (m_gain c) (unat (1 :: 32 word))" by simp
      show "f32_lit 1 = geometric_sum (m_gain c) (unat (1 :: 32 word) - 1)" by simp
    qed
  qed
  then show ?thesis
    by (simp add: CalculateFractalBounding_def)
qed

lemma bounding_none:
  assumes "m_octaves c \<le> 1"
  shows "m_fractalBounding (CalculateFractalBounding c) = Finite False 1"
proof -
  from assms
  have "fractal_loop (m_gain c) (m_octaves c) 1 (m_gain c) (f32_lit 1) = f32_lit 1"
    by (rule fractal_loop_none)
  then have "m_fractalBounding (CalculateFractalBounding c) = fdiv (f32_lit 1) (f32_lit 1)"
    by (simp add: CalculateFractalBounding_def)
  with f32_one_div_one show ?thesis
    by (simp only: f32_lit_one)
qed

text \<open>
  C10. For an octave count of at least 1, \<^verbatim>\<open>CalculateFractalBounding\<close> stores
  \<open>1 / (1 + gain + gain^2 + ... + gain^(octaves - 1))\<close>, the sum and the powers computed in
  binary32 arithmetic in the order of the loop. For an octave count of 0 or 1 the loop returns
  its accumulator at once, and the stored factor is exactly \<open>1.0\<close> for every gain.
\<close>

theorem fractal_bounding_formula:
  "(1 \<le> sint (m_octaves c) \<longrightarrow>
      m_fractalBounding (CalculateFractalBounding c) =
        fdiv (f32_lit 1) (geometric_sum (m_gain c) (nat (sint (m_octaves c)) - 1)))
   \<and> (m_octaves c = 0 \<or> m_octaves c = 1 \<longrightarrow>
        fractal_loop (m_gain c) (m_octaves c) 1 amp ampFractal = ampFractal
        \<and> m_fractalBounding (CalculateFractalBounding c) = Finite False 1)"
proof (intro conjI impI)
  assume "1 \<le> sint (m_octaves c)"
  then have "unat (m_octaves c) = nat (sint (m_octaves c))"
    by (intro unat_of_nonneg) simp
  then show "m_fractalBounding (CalculateFractalBounding c) =
        fdiv (f32_lit 1) (geometric_sum (m_gain c) (nat (sint (m_octaves c)) - 1))"
    using bounding_unsigned [of c] by simp
next
  assume "m_octaves c = 0 \<or> m_octaves c = 1"
  then have le: "m_octaves c \<le> 1"
    by auto
  then show "fractal_loop (m_gain c) (m_octaves c) 1 amp ampFractal = ampFractal"
    by (rule fractal_loop_none)
  from le show "m_fractalBounding (CalculateFractalBounding c) = Finite False 1"
    by (rule bounding_none)
qed

text \<open>
  At the default gain 0.5 and 3 octaves the factor is \<open>1 / 1.75\<close> rounded, and with 1 octave
  it is 1.
\<close>

theorem fractal_bounding_formula_witness:
  "m_fractalBounding (CalculateFractalBounding (member_init NaN))
     = Finite False (9586981 / 16777216)
   \<and> m_fractalBounding (CalculateFractalBounding ((member_init NaN)\<lparr>m_octaves := 1\<rparr>))
     = Finite False 1"
proof -
  have e: "fdiv (f32_lit 1) (geometric_sum (f32_lit (1 / 2)) 2)
      = Finite False (9586981 / 16777216)"
    by code_simp
  have h: "1 \<le> sint (m_octaves (member_init NaN))"
    by (simp add: member_init_simps)
  have n: "nat (sint (3 :: 32 word)) - 1 = 2"
    by simp
  have "m_fractalBounding (CalculateFractalBounding (member_init NaN))
     = fdiv (f32_lit 1) (geometric_sum (m_gain (member_init NaN))
         (nat (sint (m_octaves (member_init NaN))) - 1))"
    using fractal_bounding_formula [of "member_init NaN"] h by blast
  then have "m_fractalBounding (CalculateFractalBounding (member_init NaN))
     = Finite False (9586981 / 16777216)"
    by (simp only: n member_init_simps e)
  moreover
  have "m_fractalBounding (CalculateFractalBounding ((member_init NaN)\<lparr>m_octaves := 1\<rparr>))
     = Finite False 1"
  proof -
    have "m_octaves ((member_init NaN)\<lparr>m_octaves := 1\<rparr>) = 0
        \<or> m_octaves ((member_init NaN)\<lparr>m_octaves := 1\<rparr>) = 1"
      by simp
    with fractal_bounding_formula [of "(member_init NaN)\<lparr>m_octaves := 1\<rparr>"]
    show ?thesis
      by blast
  qed
  ultimately show ?thesis
    by (simp only:)
qed

section \<open>What the setters store\<close>

lemma bounding_default:
  "fdiv (f32_lit 1) (geometric_sum (f32_lit (1 / 2)) 2) = Finite False (9586981 / 16777216)"
  by code_simp

lemma SetFractalOctaves_bounding:
  "m_fractalBounding (SetFractalOctaves octaves c) =
     fdiv (f32_lit 1) (geometric_sum (m_gain c) (unat octaves - 1))"
  using bounding_unsigned [of "c\<lparr>m_octaves := octaves\<rparr>"]
  by (simp add: SetFractalOctaves_def)

lemma SetFractalGain_bounding:
  "m_fractalBounding (SetFractalGain gain c) =
     fdiv (f32_lit 1) (geometric_sum gain (unat (m_octaves c) - 1))"
  using bounding_unsigned [of "c\<lparr>m_gain := gain\<rparr>"]
  by (simp add: SetFractalGain_def)

lemma SetFractalOctaves_zero:
  "m_fractalBounding (SetFractalOctaves 0 c) = Finite False 1"
  unfolding SetFractalOctaves_def by (rule bounding_none) simp

lemma SetFractalGain_default:
  "m_fractalBounding (SetFractalGain (f32_lit (1 / 2)) (member_init fb))
     = Finite False (9586981 / 16777216)"
proof -
  have "unat (3 :: 32 word) - 1 = 2"
    by simp
  then have "m_fractalBounding (SetFractalGain (f32_lit (1 / 2)) (member_init fb))
      = fdiv (f32_lit 1) (geometric_sum (f32_lit (1 / 2)) 2)"
    by (simp only: SetFractalGain_bounding member_init_simps)
  then show ?thesis
    by (simp only: bounding_default)
qed

text \<open>
  C7. Every setter stores its argument without any check and changes its own field only:
  putting the old value of that field back gives the old configuration. \<^verbatim>\<open>SetFractalOctaves\<close>
  and \<^verbatim>\<open>SetFractalGain\<close> also store a new fractal bounding factor, which is computed from the
  gain and the octave count after the assignment and does not depend on the old factor: it is
  \<open>1 /\<close> the result of the loop, that is \<open>1 / (1 + gain + ... + gain^(octaves - 1))\<close> with the
  octave count read as unsigned. Zero octaves are accepted and give the factor \<open>1.0\<close>; setting
  the gain 0.5 on the member initialisers, whatever the factor held, gives \<open>1 / 1.75\<close>
  rounded. Putting the old field and the old factor back gives the old configuration.
  \<^verbatim>\<open>SetPerturbAmp\<close> stores its argument divided by \<^verbatim>\<open>0.45f\<close>. The getter \<^verbatim>\<open>GetSeed\<close> is a
  \<^verbatim>\<open>const\<close> member: it returns the seed and has no state to return. The body of \<^verbatim>\<open>SetSeed\<close>
  is the one modelled from the spec; all other bodies are those of the header.
\<close>

theorem setters_frame:
  "m_seed (SetSeed seed c) = seed
   \<and> (SetSeed seed c)\<lparr>m_seed := m_seed c\<rparr> = c
   \<and> m_frequency (SetFrequency frequency c) = frequency
   \<and> (SetFrequency frequency c)\<lparr>m_frequency := m_frequency c\<rparr> = c
   \<and> m_interp (SetInterp interp c) = interp
   \<and> (SetInterp interp c)\<lparr>m_interp := m_interp c\<rparr> = c
   \<and> m_noiseType (SetNoiseType noiseType c) = noiseType
   \<and> (SetNoiseType noiseType c)\<lparr>m_noiseType := m_noiseType c\<rparr> = c
   \<and> m_octaves (SetFractalOctaves octaves c) = octaves
   \<and> m_fractalBounding (SetFractalOctaves octaves c) =
       fdiv (f32_lit 1) (fractal_loop (m_gain c) octaves 1 (m_gain c) (f32_lit 1))
   \<and> m_fractalBounding (SetFractalOctaves octaves c) =
       fdiv (f32_lit 1) (geometric_sum (m_gain c) (unat octaves - 1))
   \<and> m_fractalBounding (SetFractalOctaves 0 c) = Finite False 1
   \<and> (SetFractalOctaves octaves c)
        \<lparr>m_octaves := m_octaves c, m_fractalBounding := m_fractalBounding c\<rparr> = c
   \<and> m_lacunarity (SetFractalLacunarity lacunarity c) = lacunarity
   \<and> (SetFractalLacunarity lacunarity c)\<lparr>m_lacunarity := m_lacunarity c\<rparr> = c
   \<and> m_gain (SetFractalGain gain c) = gain
   \<and> m_fractalBounding (SetFractalGain gain c) =
       fdiv (f32_lit 1) (fractal_loop gain (m_octaves c) 1 gain (f32_lit 1))
   \<and> m_fractalBounding (SetFractalGain gain c) =
       fdiv (f32_lit 1) (geometric_sum gain (unat (m_octaves c) - 1))
   \<and> m_fractalBounding (SetFractalGain (f32_lit (1 / 2)) (member_init fb)) =
       Finite False (9586981 / 16777216)
   \<and> (SetFractalGain gain c)
        \<lparr>m_gain := m_gain c, m_fractalBounding := m_fractalBounding c\<rparr> = c
   \<and> m_fractalType (SetFractalType fractalType c) = fractalType
   \<and> (SetFractalType fractalType c)\<lparr>m_fractalType := m_fractalType c\<rparr> = c
   \<and> m_cellularDistanceFunction (SetCellularDistanceFunction cdf c) = cdf
   \<and> (SetCellularDistanceFunction cdf c)
        \<lparr>m_cellularDistanceFunction := m_cellularDistanceFunction c\<rparr> = c
   \<and> m_cellularReturnType (SetCellularReturnType crt c) = crt
   \<and> (SetCellularReturnType crt c)\<lparr>m_cellularReturnType := m_cellularReturnType c\<rparr> = c
   \<and> m_cellularNoiseLookup (SetCellularNoiseLookup noise c) = noise
   \<and> (SetCellularNoiseLookup noise c)\<lparr>m_cellularNoiseLookup := m_cellularNoiseLookup c\<rparr> = c
   \<and> m_perturbAmp (SetPerturbAmp perturbAmp c) = fdiv perturbAmp (f32_lit (45 / 100))
   \<and> (SetPerturbAmp perturbAmp c)\<lparr>m_perturbAmp := m_perturbAmp c\<rparr> = c
   \<and> m_perturb (SetPeturbType perturb c) = perturb
   \<and> (SetPeturbType perturb c)\<lparr>m_perturb := m_perturb c\<rparr> = c
   \<and> GetSeed c = m_seed c"
proof -
  note geo = SetFractalOctaves_bounding [of octaves c] SetFractalGain_bounding [of gain c]
    SetFractalOctaves_zero [of c] SetFractalGain_default [of fb]
  have frame: "m_seed (SetSeed seed c) = seed"
    "(SetSeed seed c)\<lparr>m_seed := m_seed c\<rparr> = c"
    "m_frequency (SetFrequency frequency c) = frequency"
    "(SetFrequency frequency c)\<lparr>m_frequency := m_frequency c\<rparr> = c"
    "m_interp (SetInterp interp c) = interp"
    "(SetInterp interp c)\<lparr>m_interp := m_interp c\<rparr> = c"
    "m_noiseType (SetNoiseType noiseType c) = noiseType"
    "(SetNoiseType noiseType c)\<lparr>m_noiseType := m_noiseType c\<rparr> = c"
    "m_octaves (SetFractalOctaves octaves c) = octaves"
    "m_fractalBounding (SetFractalOctaves octaves c) =
       fdiv (f32_lit 1) (fractal_loop (m_gain c) octaves 1 (m_gain c) (f32_lit 1))"
    "(SetFractalOctaves octaves c)
        \<lparr>m_octaves := m_octaves c, m_fractalBounding := m_fractalBounding c\<rparr> = c"
    "m_lacunarity (SetFractalLacunarity lacunarity c) = lacunarity"
    "(SetFractalLacunarity lacunarity c)\<lparr>m_lacunarity := m_lacunarity c\<rparr> = c"
    "m_gain (SetFractalGain gain c) = gain"
    "m_fractalBounding (SetFractalGain gain c) =
       fdiv (f32_lit 1) (fractal_loop gain (m_octaves c) 1 gain (f32_lit 1))"
    "(SetFractalGain gain c)
        \<lparr>m_gain := m_gain c, m_fractalBounding := m_fractalBounding c\<rparr> = c"
    "m_fractalType (SetFractalType fractalType c) = fractalType"
    "(SetFractalType fractalType c)\<lparr>m_fractalType := m_fractalType c\<rparr> = c"
    "m_cellularDistanceFunction (SetCellularDistanceFunction cdf c) = cdf"
    "(SetCellularDistanceFunction cdf c)
        \<lparr>m_cellularDistanceFunction := m_cellularDistanceFunction c\<rparr> = c"
    "m_cellularReturnType (SetCellularReturnType crt c) = crt"
    "(SetCellularReturnType crt c)\<lparr>m_cellularReturnType := m_cellularReturnType c\<rparr> = c"
    "m_cellularNoiseLookup (SetCellularNoiseLookup noise c) = noise"
    "(SetCellularNoiseLookup noise c)\<lparr>m_cellularNoiseLookup := m_cellularNoiseLookup c\<rparr> = c"
    "m_perturbAmp (SetPerturbAmp perturbAmp c) = fdiv perturbAmp (f32_lit (45 / 100))"
    "(SetPerturbAmp perturbAmp c)\<lparr>m_perturbAmp := m_perturbAmp c\<rparr> = c"
    "m_perturb (SetPeturbType perturb c) = perturb"
    "(SetPeturbType perturb c)\<lparr>m_perturb := m_perturb c\<rparr> = c"
    "GetSeed c = m_seed c"
    by (simp_all add: setter_defs SetSeed_def CalculateFractalBounding_def GetSeed_def)
  show ?thesis
    by (intro conjI) (rule frame geo)+
qed

section \<open>Single-octave FBM\<close>

lemma fmul_one_left: "is_f32 p \<Longrightarrow> fmul (Finite False 1) p = p"
  by (cases p) simp_all

lemma fmul_one_right: "is_f32 p \<Longrightarrow> fmul p (Finite False 1) = p"
  by (cases p) simp_all

text \<open>
  C4. After \<^verbatim>\<open>SetFractalOctaves(1)\<close> the fractal bounding factor is exactly \<open>1.0\<close>, and FBM
  noise is the value of the base primitive at the seed, the interpolation mode and the
  coordinate scaled by the frequency, unchanged, for every configuration, every coordinate
  and every primitive that returns binary32 values.
\<close>

theorem single_octave_fbm:
  "is_f32 (primitive (m_interp c) (m_seed c) (map (\<lambda>x. fmul x (m_frequency c)) coord)) \<Longrightarrow>
     fractal_FBM primitive (SetFractalOctaves 1 c) coord
       = primitive (m_interp c) (m_seed c) (map (\<lambda>x. fmul x (m_frequency c)) coord)
     \<and> m_fractalBounding (SetFractalOctaves 1 c) = Finite False 1"
proof -
  let ?c = "SetFractalOctaves 1 c"
  let ?p = "primitive (m_interp c) (m_seed c) (map (\<lambda>x. fmul x (m_frequency c)) coord)"
  assume p: "is_f32 ?p"
  have b: "m_fractalBounding ?c = Finite False 1"
    unfolding SetFractalOctaves_def by (rule bounding_none) simp
  have f: "m_interp ?c = m_interp c" "m_seed ?c = m_seed c" "m_frequency ?c = m_frequency c"
    "m_octaves ?c = 1"
    by (simp_all add: SetFractalOctaves_def CalculateFractalBounding_def)
  have "fractal_FBM primitive ?c coord = fmul (fmul (Finite False 1) ?p) (Finite False 1)"
    by (simp add: fractal_FBM_def f b f32_lit_one)
  also have "\<dots> = ?p"
    using p by (simp only: fmul_one_left fmul_one_right)
  finally show ?thesis
    using b by simp
qed

lemma is_f32_half: "is_f32 (Finite False (1 / 2))"
  by code_simp

theorem single_octave_fbm_witness:
  "fractal_FBM (\<lambda>interp seed coord. Finite False (1 / 2))
      (SetFractalOctaves 1 (member_init NaN)) [Finite False 3, Finite True 7]
     = Finite False (1 / 2)
   \<and> m_fractalBounding (SetFractalOctaves 1 (member_init NaN)) = Finite False 1"
  using single_octave_fbm [of "\<lambda>interp seed coord. Finite False (1 / 2)" "member_init NaN"
      "[Finite False 3, Finite True 7]"] is_f32_half
  by simp

section \<open>Cellular return types\<close>

text \<open>
  C5. At every point, and so on every list of points, the cellular value for the return type
  \<^verbatim>\<open>Distance2Add\<close> is the binary32 sum of the values for \<^verbatim>\<open>Distance\<close> and for \<^verbatim>\<open>Distance2\<close> on
  the same configuration: the three differ in the final combine step only.
\<close>

theorem distance2add_sum:
  "cellular_point nearest lookup (SetCellularReturnType Distance2Add c) coord
     = fadd (cellular_point nearest lookup (SetCellularReturnType Distance c) coord)
         (cellular_point nearest lookup (SetCellularReturnType Distance2 c) coord)
   \<and> map (cellular_point nearest lookup (SetCellularReturnType Distance2Add c)) coords
     = map2 fadd (map (cellular_point nearest lookup (SetCellularReturnType Distance c)) coords)
         (map (cellular_point nearest lookup (SetCellularReturnType Distance2 c)) coords)"
  by (induction coords) (simp_all add: cellular_point_def SetCellularReturnType_def)

section \<open>The missing lookup\<close>

text \<open>
  C3. With the return type \<^verbatim>\<open>NoiseLookup\<close> and a null lookup pointer, \<^verbatim>\<open>GetCellular\<close> reports
  a configuration error instead of an array and returns the configuration as it was, and so
  does \<^verbatim>\<open>GetNoise\<close> when the noise type is \<^verbatim>\<open>Cellular\<close>.
\<close>

theorem lookup_error:
  "m_cellularReturnType c = NoiseLookup \<and> m_cellularNoiseLookup c = None \<longrightarrow>
     GetCellular backend grid c = (Inl ConfigurationError, c)
     \<and> (m_noiseType c = Cellular \<longrightarrow> GetNoise backends grid c = (Inl ConfigurationError, c))"
  by (simp add: GetCellular_def GetNoise_def)

text \<open>
  The lookup pointer of a new configuration is null: selecting \<^verbatim>\<open>NoiseLookup\<close> on it gives the
  error.
\<close>

theorem lookup_error_witness:
  "GetCellular (\<lambda>c grid. Inr []) ()
      (SetCellularReturnType NoiseLookup (FastNoiseCL_ctor SetSeed NaN 1337))
     = (Inl ConfigurationError,
        SetCellularReturnType NoiseLookup (FastNoiseCL_ctor SetSeed NaN 1337))
   \<and> GetNoise (\<lambda>t c grid. Inr []) ()
       (SetNoiseType Cellular
          (SetCellularReturnType NoiseLookup (FastNoiseCL_ctor SetSeed NaN 1337)))
     = (Inl ConfigurationError,
        SetNoiseType Cellular
          (SetCellularReturnType NoiseLookup (FastNoiseCL_ctor SetSeed NaN 1337)))"
  using
    lookup_error [of "SetCellularReturnType NoiseLookup (FastNoiseCL_ctor SetSeed NaN 1337)"
      "\<lambda>c grid. Inr []" "()" "\<lambda>t c grid. Inr []"]
    lookup_error [of "SetNoiseType Cellular
      (SetCellularReturnType NoiseLookup (FastNoiseCL_ctor SetSeed NaN 1337))"
      "\<lambda>c grid. Inr []" "()" "\<lambda>t c grid. Inr []"]
  by (simp add: SetCellularReturnType_def SetNoiseType_def FastNoiseCL_ctor_def
      CalculateFractalBounding_def SetSeed_def member_init_def)

section \<open>Ownership of the lookup\<close>

lemma delete_frees:
  "delete_FastNoiseCL fuel h (Some p) = Inr h' \<Longrightarrow> h' p = None"
  by (cases fuel) (auto split: option.splits sum.splits if_splits)

lemma delete_twice:
  "h p = None \<Longrightarrow> delete_FastNoiseCL (Suc fuel) h (Some p) = Inl UndefinedBehaviour"
  by simp

text \<open>
  C9. \<^verbatim>\<open>SetCellularNoiseLookup\<close> stores the pointer only, and the destructor deletes the object
  it points to. Whenever the destructor of a configuration whose lookup was set to \<open>p\<close>
  returns, \<open>p\<close> is no longer live, and a later \<^verbatim>\<open>delete\<close> of \<open>p\<close> by the caller is undefined
  behaviour. When \<open>p\<close> is a live configuration with a null lookup, the destructor returns
  and has released exactly \<open>p\<close>; deleting a configuration at \<open>a\<close> on the free store releases
  both \<open>a\<close> and \<open>p\<close>.
\<close>

theorem destructor_deletes_lookup:
  "(FastNoiseCL_dtor fuel h (SetCellularNoiseLookup (Some p) c) = Inr h' \<longrightarrow>
      h' p = None \<and> delete_FastNoiseCL (Suc n) h' (Some p) = Inl UndefinedBehaviour)
   \<and> (h p = Some q \<and> m_cellularNoiseLookup q = None \<longrightarrow>
        FastNoiseCL_dtor (Suc fuel) h (SetCellularNoiseLookup (Some p) c) = Inr (h(p := None)))
   \<and> (h a = Some (SetCellularNoiseLookup (Some p) c) \<and> a \<noteq> p
        \<and> h p = Some q \<and> m_cellularNoiseLookup q = None \<longrightarrow>
        delete_FastNoiseCL (Suc (Suc fuel)) h (Some a) = Inr (h(p := None, a := None)))"
proof (intro conjI impI)
  assume "FastNoiseCL_dtor fuel h (SetCellularNoiseLookup (Some p) c) = Inr h'"
  then have "delete_FastNoiseCL fuel h (Some p) = Inr h'"
    by (simp add: FastNoiseCL_dtor_def SetCellularNoiseLookup_def)
  then show "h' p = None"
    by (rule delete_frees)
  then show "delete_FastNoiseCL (Suc n) h' (Some p) = Inl UndefinedBehaviour"
    by (rule delete_twice)
next
  assume "h p = Some q \<and> m_cellularNoiseLookup q = None"
  then show "FastNoiseCL_dtor (Suc fuel) h (SetCellularNoiseLookup (Some p) c)
      = Inr (h(p := None))"
    by (simp add: FastNoiseCL_dtor_def SetCellularNoiseLookup_def domI)
next
  assume a: "h a = Some (SetCellularNoiseLookup (Some p) c) \<and> a \<noteq> p
        \<and> h p = Some q \<and> m_cellularNoiseLookup q = None"
  then have "delete_FastNoiseCL (Suc fuel) h (Some p) = Inr (h(p := None))"
    by (simp add: domI)
  with a show "delete_FastNoiseCL (Suc (Suc fuel)) h (Some a) = Inr (h(p := None, a := None))"
    by (subst delete_FastNoiseCL.simps(3))
      (simp add: SetCellularNoiseLookup_def domI del: delete_FastNoiseCL.simps(3))
qed

text \<open>
  A configuration whose lookup is set to the configuration at address 1 is destroyed: the
  free store is empty afterwards, also when the configuration itself lives at address 0, and
  a second \<^verbatim>\<open>delete\<close> of address 1 is undefined behaviour.
\<close>

theorem destructor_deletes_lookup_witness:
  "FastNoiseCL_dtor (Suc 0) [1 \<mapsto> member_init NaN]
      (SetCellularNoiseLookup (Some 1) (member_init NaN)) = Inr Map.empty
   \<and> delete_FastNoiseCL (Suc 0) Map.empty (Some 1) = Inl UndefinedBehaviour
   \<and> delete_FastNoiseCL (Suc (Suc 0))
        [0 \<mapsto> SetCellularNoiseLookup (Some 1) (member_init NaN), 1 \<mapsto> member_init NaN]
        (Some 0) = Inr Map.empty"
proof -
  let ?q = "member_init NaN"
  let ?c = "SetCellularNoiseLookup (Some 1) ?q"
  have q: "m_cellularNoiseLookup ?q = None"
    by (simp add: member_init_simps)
  have 1: "FastNoiseCL_dtor (Suc 0) [1 \<mapsto> ?q] ?c = Inr ([1 \<mapsto> ?q](1 := None))"
    using destructor_deletes_lookup [where fuel = 0 and h = "[1 \<mapsto> ?q]" and p = 1
        and c = ?q and h' = Map.empty and n = 0 and q = ?q and a = 0] q
    by simp
  then have 1: "FastNoiseCL_dtor (Suc 0) [1 \<mapsto> ?q] ?c = Inr Map.empty"
    by simp
  have 2: "delete_FastNoiseCL (Suc 0) Map.empty (Some 1) = Inl UndefinedBehaviour"
    using destructor_deletes_lookup [where fuel = "Suc 0" and h = "[1 \<mapsto> ?q]" and p = 1
        and c = ?q and h' = Map.empty and n = 0 and q = ?q and a = 0] 1
    by blast
  have "delete_FastNoiseCL (Suc (Suc 0)) [0 \<mapsto> ?c, 1 \<mapsto> ?q] (Some 0)
      = Inr ([0 \<mapsto> ?c, 1 \<mapsto> ?q](1 := None, 0 := None))"
    using destructor_deletes_lookup [where fuel = 0 and h = "[0 \<mapsto> ?c, 1 \<mapsto> ?q]" and p = 1
        and c = ?q and h' = Map.empty and n = 0 and q = ?q and a = 0] q
    by simp
  moreover have "[0 \<mapsto> ?c, 1 \<mapsto> ?q](1 := None, 0 := None) = Map.empty"
    by (rule ext) simp
  ultimately have 3: "delete_FastNoiseCL (Suc (Suc 0)) [0 \<mapsto> ?c, 1 \<mapsto> ?q] (Some 0)
      = Inr Map.empty"
    by (rule back_subst [where P = "\<lambda>m. delete_FastNoiseCL (Suc (Suc 0))
      [0 \<mapsto> ?c, 1 \<mapsto> ?q] (Some 0) = Inr m"])
  from 1 2 3 show ?thesis
    by (simp only: simp_thms)
qed

end
